theory Spec2Isabelle
  imports Main
begin

section \<open>JSON values and the Python operations the client applies to them\<close>

text \<open>
  The client (\<^verbatim>\<open>src/sphero_rvr_chat/mcp_client.py\<close>) handles protocol messages as the
  Python values that \<^verbatim>\<open>json.loads\<close> produces: \<^verbatim>\<open>None\<close>, booleans, integers, strings,
  lists and dictionaries with string keys. A dictionary is an association list, looked
  up with \<open>map_of\<close> (floats are left out: no operation of the client looks at a number).
\<close>

datatype json =
    JNull
  | JBool bool
  | JInt int
  | JStr string
  | JList "json list"
  | JDict "(string \<times> json) list"

type_synonym dict = "(string \<times> json) list"

text \<open>The exceptions that the modelled code can raise or has to handle.\<close>

datatype py_exception =
    AttributeError
  | TypeError
  | KeyError
  | TimeoutError
  | BrokenPipeError
  | TimeoutExpired

text \<open>
  \<^verbatim>\<open>d.get(key, default)\<close> on a dictionary; \<^verbatim>\<open>key in d\<close> is \<open>map_of d key \<noteq> None\<close> and
  \<^verbatim>\<open>d[key]\<close> is the value \<open>map_of\<close> finds.
\<close>

definition dict_get :: "dict \<Rightarrow> string \<Rightarrow> json \<Rightarrow> json" where
  "dict_get d k dflt = (case map_of d k of Some v \<Rightarrow> v | None \<Rightarrow> dflt)"

text \<open>
  \<^verbatim>\<open>x.get(key, default)\<close> on any decoded value: only a dictionary has the method, every
  other value raises \<^verbatim>\<open>AttributeError\<close>.
\<close>

fun get :: "json \<Rightarrow> string \<Rightarrow> json \<Rightarrow> py_exception + json" where
  "get (JDict d) k dflt = Inr (dict_get d k dflt)"
| "get _ k dflt = Inl AttributeError"

text \<open>Python's truth value of a decoded value, as tested by \<^verbatim>\<open>if x\<close> and \<^verbatim>\<open>x and ...\<close>.\<close>

fun truthy :: "json \<Rightarrow> bool" where
  "truthy JNull = False"
| "truthy (JBool b) = b"
| "truthy (JInt n) = (n \<noteq> 0)"
| "truthy (JStr s) = (s \<noteq> [])"
| "truthy (JList xs) = (xs \<noteq> [])"
| "truthy (JDict d) = (d \<noteq> [])"

text \<open>\<^verbatim>\<open>len(x)\<close>: defined on strings, lists and dictionaries, \<^verbatim>\<open>TypeError\<close> otherwise.\<close>

fun len :: "json \<Rightarrow> py_exception + nat" where
  "len (JStr s) = Inr (length s)"
| "len (JList xs) = Inr (length xs)"
| "len (JDict d) = Inr (length d)"
| "len _ = Inl TypeError"

text \<open>
  \<^verbatim>\<open>x[0]\<close> on a value that passed \<^verbatim>\<open>x and len(x) > 0\<close>: the first element of a list, the
  first character of a string; a dictionary decoded from JSON has string keys only, so
  the key \<^verbatim>\<open>0\<close> is missing.
\<close>

fun item0 :: "json \<Rightarrow> py_exception + json" where
  "item0 (JList (x # xs)) = Inr x"
| "item0 (JList []) = Inl KeyError"
| "item0 (JStr (c # cs)) = Inr (JStr [c])"
| "item0 (JStr []) = Inl KeyError"
| "item0 (JDict d) = Inl KeyError"
| "item0 _ = Inl TypeError"

text \<open>
  \<^verbatim>\<open>json.loads\<close> belongs to Python's standard library, not to the repository. The model
  takes the decoder as a parameter \<open>loads\<close>: \<open>None\<close> stands for \<^verbatim>\<open>json.JSONDecodeError\<close>.
  \<^verbatim>\<open>json.loads(text)\<close> raises \<^verbatim>\<open>TypeError\<close> when \<^verbatim>\<open>text\<close> is not a string. Failures of
  the decoder other than a malformed text (the interpreter's recursion limit on deeply
  nested input) are not modelled.
\<close>

type_synonym decoder = "string \<Rightarrow> json option"

text \<open>
  \<^verbatim>\<open>_request\<close> only decodes text whose first character is \<^verbatim>\<open>{\<close> and is declared to return
  \<^verbatim>\<open>dict[str, Any] | None\<close>: by the JSON grammar such a text decodes to a dictionary or
  not at all. \<open>loads_dict\<close> reads the decoder at that type.
\<close>

definition loads_dict :: "decoder \<Rightarrow> string \<Rightarrow> dict option" where
  "loads_dict loads s = (case loads s of Some (JDict d) \<Rightarrow> Some d | _ \<Rightarrow> None)"

section \<open>Lines of the child's standard output\<close>

text \<open>
  \<^verbatim>\<open>str.strip()\<close> removes leading and trailing whitespace. Characters are taken in the
  range of \<^typ>\<open>char\<close>; the whitespace characters there are TAB, LF, VT, FF, CR, the
  separators \<^verbatim>\<open>0x1c\<close> to \<^verbatim>\<open>0x1f\<close>, the space, \<^verbatim>\<open>0x85\<close> and \<^verbatim>\<open>0xa0\<close>.
\<close>

definition isspace :: "char \<Rightarrow> bool" where
  "isspace c = (c \<in> set [CHR 0x09, CHR 0x0A, CHR 0x0B, CHR 0x0C, CHR 0x0D,
                            CHR 0x1C, CHR 0x1D, CHR 0x1E, CHR 0x1F, CHR 0x20,
                            CHR 0x85, CHR 0xA0])"

definition strip :: "string \<Rightarrow> string" where
  "strip s = rev (dropWhile isspace (rev (dropWhile isspace s)))"

text \<open>\<^verbatim>\<open>s.startswith("{")\<close>.\<close>

definition startswith_brace :: "string \<Rightarrow> bool" where
  "startswith_brace s = (case s of [] \<Rightarrow> False | c # _ \<Rightarrow> c = CHR ''{'')"

text \<open>
  What the child writes to its standard output while one request waits is a list of
  reads: \<open>(d, line)\<close> says that this \<^verbatim>\<open>readline\<close> returns \<open>line\<close> after blocking for
  \<open>d\<close> time units. \<^verbatim>\<open>readline\<close> returns the empty string at end of stream, and a line
  otherwise ends with its newline. The empty list is a child that stays silent: the
  read blocks until \<^verbatim>\<open>asyncio.wait_for\<close> gives up. Time is counted in whole units, and
  only the time spent blocked in reads is counted.
\<close>

type_synonym stdout_stream = "(nat \<times> string) list"

definition timeout :: int where
  "timeout = 30"

text \<open>
  The \<^verbatim>\<open>while True\<close> loop of \<^verbatim>\<open>_request\<close> (lines 112 to 135). \<open>Inl TimeoutError\<close> is the
  raised \<^verbatim>\<open>asyncio.TimeoutError\<close>, by the loop's own check or by \<^verbatim>\<open>wait_for\<close>;
  \<open>Inr None\<close> is \<^verbatim>\<open>return None\<close> at end of stream; \<open>Inr (Some d)\<close> is the returned
  decoded message. Every \<^verbatim>\<open>continue\<close> is the recursive call on the rest of the stream.
\<close>

fun read_response :: "decoder \<Rightarrow> nat \<Rightarrow> stdout_stream \<Rightarrow> py_exception + dict option" where
  "read_response loads elapsed [] = Inl TimeoutError"
| "read_response loads elapsed ((d, response_line) # rest) =
     (let remaining = timeout - int elapsed in
      if remaining \<le> 0 then Inl TimeoutError
      else if remaining \<le> int d then Inl TimeoutError
      else if response_line = [] then Inr None
      else
        let line = strip response_line in
        if line = [] then read_response loads (elapsed + d) rest
        else if startswith_brace line then
          (case loads_dict loads line of
             Some msg \<Rightarrow> Inr (Some msg)
           | None \<Rightarrow> read_response loads (elapsed + d) rest)
        else read_response loads (elapsed + d) rest)"

section \<open>The client and its child process\<close>

text \<open>
  The child process as \<^verbatim>\<open>subprocess.Popen\<close> presents it. \<open>stdin_pipe\<close> and
  \<open>stdout_pipe\<close> say whether \<^verbatim>\<open>process.stdin\<close> and \<^verbatim>\<open>process.stdout\<close> are set;
  \<open>stdin_written\<close> holds the messages written to the child's standard input, oldest
  first, each one line \<^verbatim>\<open>json.dumps(msg) + "\n"\<close>; \<open>stdin_broken\<close> says that the child
  has closed its end, after which every write raises \<^verbatim>\<open>BrokenPipeError\<close>.
  \<open>status\<close>, \<open>signals\<close> and \<open>reaps\<close> are the operating system's view of the child:
  an exited child stays a zombie until a \<^verbatim>\<open>wait\<close> collects it.
\<close>

datatype child_status = Running | Zombie | Reaped

datatype signal = SIGTERM | SIGKILL

record popen =
  stdin_pipe :: bool
  stdout_pipe :: bool
  stdin_written :: "json list"
  stdin_broken :: bool
  status :: child_status
  signals :: "signal list"
  reaps :: nat

text \<open>
  \<^verbatim>\<open>MCPClient\<close> with its fields \<^verbatim>\<open>command\<close>, \<^verbatim>\<open>process\<close> and \<^verbatim>\<open>_request_id\<close>. The lock only
  serialises coroutines; the model runs one call at a time and leaves it out.
  \<open>stderr\<close> collects what the client prints to \<^verbatim>\<open>sys.stderr\<close>.
\<close>

record mcp_client =
  command :: "string list"
  process :: "popen option"
  request_id :: int
  stderr :: "string list"

text \<open>\<^verbatim>\<open>MCPClient.__init__\<close>.\<close>

definition init :: "string list \<Rightarrow> mcp_client" where
  "init cmd = \<lparr>command = cmd, process = None, request_id = 0, stderr = []\<rparr>"

text \<open>
  \<^verbatim>\<open>process.stdin.write(line)\<close> followed by \<^verbatim>\<open>flush()\<close> on the line-buffered pipe.
\<close>

definition stdin_write :: "popen \<Rightarrow> json \<Rightarrow> py_exception + popen" where
  "stdin_write p msg =
     (if stdin_broken p then Inl BrokenPipeError
      else Inr (p\<lparr>stdin_written := stdin_written p @ [msg]\<rparr>))"

text \<open>
  What happens around one request, outside the client's control: whether the child has
  closed its standard input by the time of the write, and what it sends back.
\<close>

record call_env =
  stdin_closed :: bool
  stdout_lines :: stdout_stream

definition child_closes_stdin :: "bool \<Rightarrow> popen \<Rightarrow> popen" where
  "child_closes_stdin closed p = p\<lparr>stdin_broken := stdin_broken p \<or> closed\<rparr>"

definition eprint :: "string \<Rightarrow> mcp_client \<Rightarrow> mcp_client" where
  "eprint s self = self\<lparr>stderr := stderr self @ [s]\<rparr>"

text \<open>
  \<^verbatim>\<open>MCPClient._request\<close> (lines 87 to 142), here \<open>request\<close>, as \<^verbatim>\<open>_notify\<close> is
  \<open>notify\<close>: a name cannot begin with an underscore. The counter is incremented before the
  request is built and written; the handler of \<^verbatim>\<open>asyncio.TimeoutError\<close> and the handler
  of every other exception both return \<^verbatim>\<open>None\<close>, after printing to \<^verbatim>\<open>sys.stderr\<close> (the
  printed line is kept without the text of the exception). A request whose \<open>params\<close>
  are JSON values can always be serialised, so \<^verbatim>\<open>json.dumps\<close> does not fail here.
\<close>

definition request_message :: "int \<Rightarrow> string \<Rightarrow> json \<Rightarrow> json" where
  "request_message rid method params =
     JDict [(''jsonrpc'', JStr ''2.0''), (''id'', JInt rid),
            (''method'', JStr method), (''params'', params)]"

definition request ::
  "decoder \<Rightarrow> mcp_client \<Rightarrow> string \<Rightarrow> json \<Rightarrow> call_env \<Rightarrow> dict option \<times> mcp_client" where
  "request loads self method params env =
     (case process self of
        None \<Rightarrow> (None, self)
      | Some p0 \<Rightarrow>
          if \<not> stdin_pipe p0 \<or> \<not> stdout_pipe p0 then (None, self)
          else
            let rid = request_id self + 1;
                self1 = self\<lparr>request_id := rid\<rparr>;
                req = request_message rid method params;
                p1 = child_closes_stdin (stdin_closed env) p0
            in (case stdin_write p1 req of
                  Inl e \<Rightarrow>
                    (None, eprint ''MCP request error'' (self1\<lparr>process := Some p1\<rparr>))
                | Inr p2 \<Rightarrow>
                    let self2 = self1\<lparr>process := Some p2\<rparr> in
                    (case read_response loads 0 (stdout_lines env) of
                       Inl e \<Rightarrow>
                         (None, eprint (if e = TimeoutError then ''MCP request timed out''
                                        else ''MCP request error'') self2)
                     | Inr response \<Rightarrow> (response, self2))))"

text \<open>\<^verbatim>\<open>MCPClient._notify\<close> (lines 144 to 160): a message without id, no reply is read.\<close>

definition notification_message :: "string \<Rightarrow> json \<Rightarrow> json" where
  "notification_message method params =
     JDict [(''jsonrpc'', JStr ''2.0''), (''method'', JStr method), (''params'', params)]"

definition notify :: "mcp_client \<Rightarrow> string \<Rightarrow> json \<Rightarrow> bool \<Rightarrow> mcp_client" where
  "notify self method params closed =
     (case process self of
        None \<Rightarrow> self
      | Some p0 \<Rightarrow>
          if \<not> stdin_pipe p0 then self
          else
            let p1 = child_closes_stdin closed p0 in
            (case stdin_write p1 (notification_message method params) of
               Inl e \<Rightarrow> eprint ''MCP notification error'' (self\<lparr>process := Some p1\<rparr>)
             | Inr p2 \<Rightarrow> self\<lparr>process := Some p2\<rparr>))"

text \<open>
  \<^verbatim>\<open>response and key in response\<close>, followed by \<^verbatim>\<open>response[key]\<close> where the test holds:
  \<open>field response key\<close> is \<open>Some\<close> of the value exactly when the test succeeds.
\<close>

definition field :: "dict option \<Rightarrow> string \<Rightarrow> json option" where
  "field response k =
     (case response of
        None \<Rightarrow> None
      | Some d \<Rightarrow> if d \<noteq> [] then map_of d k else None)"

text \<open>
  \<^verbatim>\<open>MCPClient.start\<close> (lines 19 to 46). \<^verbatim>\<open>subprocess.Popen\<close> either raises (the command
  cannot be launched), which the handler turns into \<^verbatim>\<open>False\<close>, or yields a running
  child with both pipes and nothing written yet.
\<close>

definition spawn :: popen where
  "spawn = \<lparr>stdin_pipe = True, stdout_pipe = True, stdin_written = [],
            stdin_broken = False, status = Running, signals = [], reaps = 0\<rparr>"

definition initialize_params :: json where
  "initialize_params =
     JDict [(''protocolVersion'', JStr ''2024-11-05''),
            (''capabilities'', JDict []),
            (''clientInfo'', JDict [(''name'', JStr ''rvr-chat''), (''version'', JStr ''0.1.0'')])]"

record start_env =
  spawn_ok :: bool
  initialize_env :: call_env
  initialized_closed :: bool

definition start :: "decoder \<Rightarrow> mcp_client \<Rightarrow> start_env \<Rightarrow> bool \<times> mcp_client" where
  "start loads self env =
     (if \<not> spawn_ok env then (False, eprint ''Failed to start MCP server'' self)
      else
        let self1 = self\<lparr>process := Some spawn\<rparr>;
            (response, self2) = request loads self1 ''initialize'' initialize_params
                                  (initialize_env env)
        in if field response ''result'' \<noteq> None
           then (True, notify self2 ''notifications/initialized'' (JDict [])
                         (initialized_closed env))
           else (False, self2))"

text \<open>
  \<^verbatim>\<open>MCPClient.stop\<close> (lines 48 to 56) and the three \<^verbatim>\<open>Popen\<close> methods it calls.
  \<open>exit_after\<close> is how long after the termination request the child exits by itself
  (\<open>None\<close>: it ignores the request). \<^verbatim>\<open>terminate\<close> and \<^verbatim>\<open>kill\<close> send a signal;
  \<^verbatim>\<open>wait(timeout)\<close> collects the child if it exits in time and raises
  \<^verbatim>\<open>TimeoutExpired\<close> otherwise; a killed child is dead but stays a zombie until it is
  waited for.
\<close>

definition terminate :: "popen \<Rightarrow> popen" where
  "terminate p = p\<lparr>signals := signals p @ [SIGTERM]\<rparr>"

definition wait :: "nat \<Rightarrow> nat option \<Rightarrow> popen \<Rightarrow> py_exception + popen" where
  "wait t exit_after p =
     (case exit_after of
        None \<Rightarrow> Inl TimeoutExpired
      | Some d \<Rightarrow> if d \<le> t then Inr (p\<lparr>status := Reaped, reaps := reaps p + 1\<rparr>)
                  else Inl TimeoutExpired)"

definition kill :: "popen \<Rightarrow> popen" where
  "kill p = p\<lparr>signals := signals p @ [SIGKILL], status := Zombie\<rparr>"

text \<open>
  \<open>stop\<close> returns the client and, beside it, the child as the client leaves it when it
  drops the handle with \<^verbatim>\<open>self.process = None\<close>.
\<close>

definition stop :: "mcp_client \<Rightarrow> nat option \<Rightarrow> mcp_client \<times> popen option" where
  "stop self exit_after =
     (case process self of
        None \<Rightarrow> (self, None)
      | Some p0 \<Rightarrow>
          let p1 = terminate p0 in
          (case wait 5 exit_after p1 of
             Inr p2 \<Rightarrow> (self\<lparr>process := None\<rparr>, Some p2)
           | Inl e \<Rightarrow> (self\<lparr>process := None\<rparr>, Some (kill p1))))"

text \<open>\<^verbatim>\<open>MCPClient.list_tools\<close> (lines 58 to 63).\<close>

definition list_tools ::
  "decoder \<Rightarrow> mcp_client \<Rightarrow> call_env \<Rightarrow> (py_exception + json) \<times> mcp_client" where
  "list_tools loads self env =
     (let (response, self1) = request loads self ''tools/list'' (JDict []) env
      in (case field response ''result'' of
            Some result \<Rightarrow> get result ''tools'' (JList [])
          | None \<Rightarrow> Inr (JList []),
          self1))"

text \<open>
  \<^verbatim>\<open>MCPClient.call_tool\<close> (lines 65 to 85), in the order of the source: the branch on
  \<^verbatim>\<open>result\<close> returns only when the content is truthy and non-empty and otherwise falls
  through to the branch on \<^verbatim>\<open>error\<close>; only \<^verbatim>\<open>json.JSONDecodeError\<close> is handled.
\<close>

definition error_reply :: "dict option \<Rightarrow> py_exception + json" where
  "error_reply response =
     (case field response ''error'' of
        Some err \<Rightarrow>
          (case get err ''message'' (JStr ''Unknown error'') of
             Inl e \<Rightarrow> Inl e
           | Inr m \<Rightarrow> Inr (JDict [(''error'', m)]))
      | None \<Rightarrow> Inr (JDict [(''error'', JStr ''No response from MCP server'')]))"

definition decode_text :: "decoder \<Rightarrow> json \<Rightarrow> py_exception + json" where
  "decode_text loads text =
     (case text of
        JStr s \<Rightarrow> (case loads s of
                     Some v \<Rightarrow> Inr v
                   | None \<Rightarrow> Inr (JDict [(''result'', text)]))
      | _ \<Rightarrow> Inl TypeError)"

definition tool_reply :: "decoder \<Rightarrow> dict option \<Rightarrow> py_exception + json" where
  "tool_reply loads response =
     (case field response ''result'' of
        Some result \<Rightarrow>
          (case get result ''content'' (JList []) of
             Inl e \<Rightarrow> Inl e
           | Inr content \<Rightarrow>
               if \<not> truthy content then error_reply response
               else
                 (case len content of
                    Inl e \<Rightarrow> Inl e
                  | Inr n \<Rightarrow>
                      if 0 < n then
                        (case item0 content of
                           Inl e \<Rightarrow> Inl e
                         | Inr first \<Rightarrow>
                             (case get first ''text'' (JStr ''{}'') of
                                Inl e \<Rightarrow> Inl e
                              | Inr text \<Rightarrow> decode_text loads text))
                      else error_reply response))
      | None \<Rightarrow> error_reply response)"

definition tool_call_params :: "string \<Rightarrow> json \<Rightarrow> json" where
  "tool_call_params name arguments = JDict [(''name'', JStr name), (''arguments'', arguments)]"

definition call_tool ::
  "decoder \<Rightarrow> mcp_client \<Rightarrow> string \<Rightarrow> json \<Rightarrow> call_env \<Rightarrow> (py_exception + json) \<times> mcp_client" where
  "call_tool loads self name arguments env =
     (let (response, self1) = request loads self ''tools/call'' (tool_call_params name arguments) env
      in (tool_reply loads response, self1))"

section \<open>The tool catalogue adapter\<close>

text \<open>
  \<^verbatim>\<open>convert_tools_to_ollama\<close> (lines 163 to 178). \<^verbatim>\<open>tool["name"]\<close> raises \<^verbatim>\<open>KeyError\<close> on a
  dictionary without the key and \<^verbatim>\<open>TypeError\<close> on a value that is no dictionary; it is
  evaluated first, so no other failure is reached. The loop appends to \<^verbatim>\<open>ollama_tools\<close>.
\<close>

definition default_schema :: json where
  "default_schema = JDict [(''type'', JStr ''object''), (''properties'', JDict [])]"

fun convert_tool :: "json \<Rightarrow> py_exception + json" where
  "convert_tool (JDict tool) =
     (case map_of tool ''name'' of
        None \<Rightarrow> Inl KeyError
      | Some name \<Rightarrow>
          Inr (JDict [(''type'', JStr ''function''),
                      (''function'',
                       JDict [(''name'', name),
                              (''description'', dict_get tool ''description'' (JStr '''')),
                              (''parameters'', dict_get tool ''inputSchema'' default_schema)])]))"
| "convert_tool _ = Inl TypeError"

fun convert_loop :: "json list \<Rightarrow> json list \<Rightarrow> py_exception + json list" where
  "convert_loop ollama_tools [] = Inr ollama_tools"
| "convert_loop ollama_tools (tool # mcp_tools) =
     (case convert_tool tool of
        Inl e \<Rightarrow> Inl e
      | Inr ollama_tool \<Rightarrow> convert_loop (ollama_tools @ [ollama_tool]) mcp_tools)"

definition convert_tools_to_ollama :: "json list \<Rightarrow> py_exception + json list" where
  "convert_tools_to_ollama mcp_tools = convert_loop [] mcp_tools"

section \<open>Sessions\<close>

text \<open>
  A session is a client that has been started, followed by any sequence of the
  operations that write to the child. \<open>wire\<close> is what the child has been sent, and
  \<open>wire_ids\<close> are the ids of the requests among it, in the order of writing.
\<close>

datatype operation =
    Request string json call_env
  | Notify string json bool
  | ListTools call_env
  | CallTool string json call_env

fun run_op :: "decoder \<Rightarrow> mcp_client \<Rightarrow> operation \<Rightarrow> mcp_client" where
  "run_op loads self (Request method params env) = snd (request loads self method params env)"
| "run_op loads self (Notify method params closed) = notify self method params closed"
| "run_op loads self (ListTools env) = snd (list_tools loads self env)"
| "run_op loads self (CallTool name arguments env) = snd (call_tool loads self name arguments env)"

definition run_session :: "decoder \<Rightarrow> string list \<Rightarrow> start_env \<Rightarrow> operation list \<Rightarrow> mcp_client" where
  "run_session loads cmd env ops = foldl (run_op loads) (snd (start loads (init cmd) env)) ops"

definition wire :: "mcp_client \<Rightarrow> json list" where
  "wire self = (case process self of None \<Rightarrow> [] | Some p \<Rightarrow> stdin_written p)"

fun message_id :: "json \<Rightarrow> int option" where
  "message_id (JDict d) = (case map_of d ''id'' of Some (JInt i) \<Rightarrow> Some i | _ \<Rightarrow> None)"
| "message_id _ = None"

definition wire_ids :: "mcp_client \<Rightarrow> int list" where
  "wire_ids self = List.map_filter message_id (wire self)"

section \<open>Vocabulary of the properties\<close>



text \<open>The client can put a request on the wire: it has a child with both pipes, still open.\<close>

definition sendable :: "mcp_client \<Rightarrow> call_env \<Rightarrow> bool" where
  "sendable self env =
     (case process self of
        None \<Rightarrow> False
      | Some p \<Rightarrow> stdin_pipe p \<and> stdout_pipe p \<and> \<not> stdin_broken p \<and> \<not> stdin_closed env)"

text \<open>
  For the numbering of requests: which operations issue a request, whether the client
  has a child with both pipes, and the property that every step of a session keeps:
  the ids on the wire are 1, 2, and so on up to their number, none of them exceeds the
  counter, and while the pipe is open their number is the counter.
\<close>

fun sends_request :: "operation \<Rightarrow> bool" where
  "sends_request (Notify method params closed) = False"
| "sends_request _ = True"

definition ids_in_step :: "mcp_client \<Rightarrow> bool" where
  "ids_in_step self =
     (wire_ids self = [1 .. int (length (wire_ids self))]
      \<and> int (length (wire_ids self)) \<le> request_id self
      \<and> (case process self of
            None \<Rightarrow> True
          | Some p \<Rightarrow> stdin_broken p \<or> int (length (wire_ids self)) = request_id self))"

definition has_pipes :: "mcp_client \<Rightarrow> bool" where
  "has_pipes self = (case process self of None \<Rightarrow> False | Some p \<Rightarrow> stdin_pipe p \<and> stdout_pipe p)"

text \<open>The two messages of the handshake.\<close>

definition initialize_request :: "mcp_client \<Rightarrow> json" where
  "initialize_request self = request_message (request_id self + 1) ''initialize'' initialize_params"

definition initialized_notification :: json where
  "initialized_notification = notification_message ''notifications/initialized'' (JDict [])"

text \<open>A response that gives \<open>call_tool\<close> no content to decode.\<close>

definition no_content :: "dict option \<Rightarrow> bool" where
  "no_content response =
     (case field response ''result'' of
        None \<Rightarrow> True
      | Some (JDict result) \<Rightarrow> \<not> truthy (dict_get result ''content'' (JList []))
      | Some _ \<Rightarrow> False)"

section \<open>Example inputs\<close>

text \<open>
  Concrete lines and the values \<^verbatim>\<open>json.loads\<close> gives for them, used where a property is
  evaluated. \<open>example_loads\<close> decodes exactly these texts and fails on every other.
\<close>

definition reply7_text :: string where
  \<open>reply7_text = ''{"jsonrpc": "2.0", "id": 7, "result": {}}''\<close>

definition reply7 :: dict where
  "reply7 = [(''jsonrpc'', JStr ''2.0''), (''id'', JInt 7), (''result'', JDict [])]"

definition refused_text :: string where
  \<open>refused_text =
     ''{"jsonrpc": "2.0", "id": 1, "error": {"code": -32600, "message": "unsupported"}}''\<close>

definition refused :: dict where
  "refused = [(''jsonrpc'', JStr ''2.0''), (''id'', JInt 1),
              (''error'', JDict [(''code'', JInt (- 32600)), (''message'', JStr ''unsupported'')])]"

definition null_result_text :: string where
  \<open>null_result_text = ''{"jsonrpc": "2.0", "id": 1, "result": null}''\<close>

definition null_result :: dict where
  "null_result = [(''jsonrpc'', JStr ''2.0''), (''id'', JInt 1), (''result'', JNull)]"

definition tools_text :: string where
  \<open>tools_text = ''{"id":1,"result":{"tools":[{"name":"connect","description":"d"}]}}''\<close>

definition connect_tool :: json where
  "connect_tool = JDict [(''name'', JStr ''connect''), (''description'', JStr ''d'')]"

definition tools_reply :: dict where
  "tools_reply = [(''id'', JInt 1), (''result'', JDict [(''tools'', JList [connect_tool])])]"

definition battery_text :: string where
  \<open>battery_text = ''{"battery_percentage":87}''\<close>

definition battery :: json where
  "battery = JDict [(''battery_percentage'', JInt 87)]"

definition text_reply :: "string \<Rightarrow> dict" where
  "text_reply s = [(''id'', JInt 1), (''result'', JDict [(''content'', JList [JDict [(''text'', JStr s)]])])]"

definition battery_reply_text :: string where
  \<open>battery_reply_text =
     ''{"id":1,"result":{"content":[{"text":"{'' @ [CHR 0x5C] @ ''"battery_percentage''
       @ [CHR 0x5C] @ ''":87}"}]}}''\<close>

definition notjson_reply_text :: string where
  \<open>notjson_reply_text = ''{"id":1,"result":{"content":[{"text":"not json"}]}}''\<close>

definition bare_content_text :: string where
  \<open>bare_content_text = ''{"id":1,"result":{"content":["ok"]}}''\<close>

definition bare_content :: dict where
  "bare_content = [(''id'', JInt 1), (''result'', JDict [(''content'', JList [JStr ''ok''])])]"

definition empty_content_text :: string where
  \<open>empty_content_text = ''{"id":1,"result":{"content":[]}}''\<close>

definition empty_content :: dict where
  "empty_content = [(''id'', JInt 1), (''result'', JDict [(''content'', JList [])])]"

definition image_content_text :: string where
  \<open>image_content_text = ''{"id":1,"result":{"content":[{"type":"image"}]}}''\<close>

definition image_content :: dict where
  "image_content =
     [(''id'', JInt 1), (''result'', JDict [(''content'', JList [JDict [(''type'', JStr ''image'')]])])]"

definition example_table :: "(string \<times> json) list" where
  "example_table =
     [(reply7_text, JDict reply7),
      (refused_text, JDict refused),
      (null_result_text, JDict null_result),
      (tools_text, JDict tools_reply),
      (battery_text, battery),
      (battery_reply_text, JDict (text_reply battery_text)),
      (notjson_reply_text, JDict (text_reply ''not json'')),
      (bare_content_text, JDict bare_content),
      (empty_content_text, JDict empty_content),
      (image_content_text, JDict image_content),
      (''{}'', JDict [])]"

definition example_loads :: decoder where
  "example_loads = map_of example_table"

text \<open>The child sends one line, after one time unit.\<close>

definition one_line :: "string \<Rightarrow> call_env" where
  "one_line text = \<lparr>stdin_closed = False, stdout_lines = [(1, text @ ''\<newline>'')]\<rparr>"

definition refused_start_env :: start_env where
  "refused_start_env =
     \<lparr>spawn_ok = True, initialize_env = one_line refused_text, initialized_closed = False\<rparr>"

definition live_client :: mcp_client where
  "live_client = (init [''sphero-rvr-mcp''])\<lparr>process := Some spawn\<rparr>"


definition reply7_stream :: stdout_stream where
  "reply7_stream = [(1, reply7_text @ ''\<newline>'')]"

definition late_stream :: stdout_stream where
  "late_stream = [(31, reply7_text @ ''\<newline>'')]"

definition eof_stream :: stdout_stream where
  "eof_stream = [(0, '''')]"

definition example_start_env :: start_env where
  "example_start_env =
     \<lparr>spawn_ok = True,
      initialize_env = \<lparr>stdin_closed = False, stdout_lines = reply7_stream\<rparr>,
      initialized_closed = False\<rparr>"

definition example_ops :: "operation list" where
  "example_ops =
     [Request ''tools/list'' (JDict []) \<lparr>stdin_closed = False, stdout_lines = late_stream\<rparr>,
      Notify ''notifications/cancelled'' (JDict []) False,
      CallTool ''connect'' (JDict []) \<lparr>stdin_closed = False, stdout_lines = eof_stream\<rparr>,
      ListTools \<lparr>stdin_closed = False, stdout_lines = reply7_stream\<rparr>]"

definition drive_tool :: json where
  "drive_tool =
     JDict [(''name'', JStr ''drive''),
            (''inputSchema'',
             JDict [(''type'', JStr ''object''),
                    (''properties'', JDict [(''speed'', JDict [(''type'', JStr ''integer'')])])])]"

definition eof_env :: call_env where
  "eof_env = \<lparr>stdin_closed = False, stdout_lines = eof_stream\<rparr>"

section \<open>The read loop\<close>

lemma startswith_brace_nonempty: "startswith_brace (strip l) \<Longrightarrow> l \<noteq> []"
  by (auto simp: strip_def startswith_brace_def)




lemma read_response_hit1:
  assumes "startswith_brace (strip l)" and "loads_dict loads (strip l) = Some msg"
    and "int elapsed + int d < timeout"
  shows "read_response loads elapsed ((d, l) # rest) = Inr (Some msg)"
  using assms startswith_brace_nonempty[of l]
  by (auto simp: Let_def startswith_brace_def split: list.splits)




text \<open>What \<open>request\<close> returns when the request can be written: the loop's result, with
  the timeout turned into \<^verbatim>\<open>None\<close>.\<close>

lemma request_sendable:
  assumes "sendable self env"
  shows "fst (request loads self method params env) =
           (case read_response loads 0 (stdout_lines env) of Inl e \<Rightarrow> None | Inr r \<Rightarrow> r)"
  using assms
  by (auto simp: request_def sendable_def Let_def stdin_write_def child_closes_stdin_def
      split: option.splits sum.splits)

lemma request_Some_iff:
  "fst (request loads self method params env) = Some msg \<longleftrightarrow>
     sendable self env \<and> read_response loads 0 (stdout_lines env) = Inr (Some msg)"
  by (auto simp: request_def sendable_def Let_def stdin_write_def child_closes_stdin_def
      split: option.splits sum.splits if_splits)

text \<open>Evaluation of the examples.\<close>

lemma strip_reply7_line: "strip (reply7_text @ ''\<newline>'') = reply7_text"
  by (simp add: strip_def reply7_text_def isspace_def)

lemma startswith_brace_reply7: "startswith_brace reply7_text"
  by (simp add: startswith_brace_def reply7_text_def)

lemmas example_texts =
  reply7_text_def refused_text_def null_result_text_def tools_text_def battery_text_def
  battery_reply_text_def notjson_reply_text_def bare_content_text_def empty_content_text_def
  image_content_text_def

lemma loads_dict_reply7: "loads_dict example_loads reply7_text = Some reply7"
  by (simp add: loads_dict_def example_loads_def example_table_def)

lemma sendable_live_client: "sendable live_client \<lparr>stdin_closed = False, stdout_lines = s\<rparr>"
  by (simp add: sendable_def live_client_def init_def spawn_def)






section \<open>Which message a request returns\<close>

lemma read_response_reply7_0: "read_response example_loads 0 reply7_stream = Inr (Some reply7)"
  unfolding reply7_stream_def
  by (rule read_response_hit1)
     (simp_all add: strip_reply7_line startswith_brace_reply7 loads_dict_reply7 timeout_def)





section \<open>Timeout and end of stream\<close>



lemma read_response_late: "read_response example_loads 0 late_stream = Inl TimeoutError"
  by (simp add: late_stream_def timeout_def)

lemma read_response_eof: "read_response example_loads 0 eof_stream = Inr None"
  by (simp add: eof_stream_def timeout_def)




section \<open>Request ids\<close>

lemma message_id_request: "message_id (request_message rid method params) = Some rid"
  by (simp add: request_message_def)

lemma message_id_notification: "message_id (notification_message method params) = None"
  by (simp add: notification_message_def)

lemma map_filter_snoc: "List.map_filter f (xs @ [x]) = List.map_filter f xs @ (case f x of None \<Rightarrow> [] | Some y \<Rightarrow> [y])"
  by (simp add: List.map_filter_def split: option.splits)

lemma upto_snoc: "[1 .. int n] @ [int n + 1] = [1 .. int (Suc n)]"
  using upto_rec2[of 1 "1 + int n"] by (simp add: add.commute)

lemma request_cases:
  obtains (idle) "\<not> has_pipes self" "snd (request loads self method params env) = self"
  | (failed) p where "has_pipes self" "process self = Some p" "stdin_broken p \<or> stdin_closed env"
      "process (snd (request loads self method params env)) = Some (p\<lparr>stdin_broken := True\<rparr>)"
      "request_id (snd (request loads self method params env)) = request_id self + 1"
  | (sent) p where "has_pipes self" "process self = Some p" "\<not> stdin_broken p" "\<not> stdin_closed env"
      "process (snd (request loads self method params env)) =
         Some (p\<lparr>stdin_written := stdin_written p @ [request_message (request_id self + 1) method params]\<rparr>)"
      "request_id (snd (request loads self method params env)) = request_id self + 1"
proof (cases "has_pipes self")
  case False
  then have "snd (request loads self method params env) = self"
    by (auto simp: request_def has_pipes_def split: option.splits)
  with False show ?thesis by (rule idle)
next
  case True
  then obtain p where p: "process self = Some p" "stdin_pipe p" "stdout_pipe p"
    by (auto simp: has_pipes_def split: option.splits)
  show ?thesis
  proof (cases "stdin_broken p \<or> stdin_closed env")
    case True
    with p have "process (snd (request loads self method params env)) = Some (p\<lparr>stdin_broken := True\<rparr>)"
      "request_id (snd (request loads self method params env)) = request_id self + 1"
      by (auto simp: request_def Let_def stdin_write_def child_closes_stdin_def eprint_def)
    with \<open>has_pipes self\<close> p(1) True show ?thesis by (rule failed)
  next
    case False
    with p have "process (snd (request loads self method params env)) =
         Some (p\<lparr>stdin_written := stdin_written p @ [request_message (request_id self + 1) method params]\<rparr>)"
      "request_id (snd (request loads self method params env)) = request_id self + 1"
      by (auto simp: request_def Let_def stdin_write_def child_closes_stdin_def eprint_def
          split: sum.splits)
    with \<open>has_pipes self\<close> p(1) False show ?thesis by (intro sent) auto
  qed
qed

lemma ids_in_step_request:
  assumes "ids_in_step self"
  shows "ids_in_step (snd (request loads self method params env))"
proof (cases rule: request_cases[of self loads "method" params env])
  case idle
  with assms show ?thesis by simp
next
  case (failed p)
  with assms show ?thesis
    by (auto simp: ids_in_step_def wire_ids_def wire_def split: if_splits)
next
  case (sent p)
  define ids where "ids = List.map_filter message_id (stdin_written p)"
  from assms sent(2,3) have w: "ids = [1 .. int (length ids)]"
    and n: "int (length ids) = request_id self"
    by (auto simp: ids_in_step_def wire_ids_def wire_def ids_def)
  have ids': "wire_ids (snd (request loads self method params env)) = ids @ [request_id self + 1]"
    using sent(5) by (simp add: wire_ids_def wire_def map_filter_snoc message_id_request ids_def)
  have "ids @ [request_id self + 1] = [1 .. int (length ids)] @ [int (length ids) + 1]"
    using w n by simp
  also have "\<dots> = [1 .. int (Suc (length ids))]"
    by (rule upto_snoc)
  finally have "ids @ [request_id self + 1] = [1 .. int (length (ids @ [request_id self + 1]))]"
    by (simp add: add.commute)
  then have C: "wire_ids (snd (request loads self method params env)) =
      [1 .. int (length (wire_ids (snd (request loads self method params env))))]"
    unfolding ids' .
  have D: "int (length (wire_ids (snd (request loads self method params env)))) =
      request_id (snd (request loads self method params env))"
    unfolding ids' sent(6) using n by simp
  show ?thesis
    unfolding ids_in_step_def
  proof (intro conjI)
    show "wire_ids (snd (request loads self method params env)) =
      [1 .. int (length (wire_ids (snd (request loads self method params env))))]"
      by (rule C)
    show "int (length (wire_ids (snd (request loads self method params env))))
      \<le> request_id (snd (request loads self method params env))"
      using D by simp
    show "case process (snd (request loads self method params env)) of
            None \<Rightarrow> True
          | Some p \<Rightarrow> stdin_broken p \<or>
              int (length (wire_ids (snd (request loads self method params env)))) =
              request_id (snd (request loads self method params env))"
      using D by (simp split: option.splits)
  qed
qed

lemma has_pipes_request: "has_pipes (snd (request loads self method params env)) = has_pipes self"
  by (cases rule: request_cases[of self loads "method" params env]) (auto simp: has_pipes_def)

lemma request_id_request:
  "request_id (snd (request loads self method params env)) =
     (if has_pipes self then request_id self + 1 else request_id self)"
  by (cases rule: request_cases[of self loads "method" params env]) auto

lemma notify_cases:
  obtains (idle) "\<forall>p. process self = Some p \<longrightarrow> \<not> stdin_pipe p"
      "notify self method params closed = self"
  | (failed) p where "process self = Some p"
      "process (notify self method params closed) = Some (p\<lparr>stdin_broken := True\<rparr>)"
      "request_id (notify self method params closed) = request_id self" "stdin_broken p \<or> closed"
  | (sent) p where "process self = Some p" "\<not> stdin_broken p" "\<not> closed"
      "process (notify self method params closed) =
         Some (p\<lparr>stdin_written := stdin_written p @ [notification_message method params]\<rparr>)"
      "request_id (notify self method params closed) = request_id self"
proof (cases "\<exists>p. process self = Some p \<and> stdin_pipe p")
  case False
  then have "notify self method params closed = self"
    by (auto simp: notify_def split: option.splits)
  with False show ?thesis by (intro idle) auto
next
  case True
  then obtain p where Some: "process self = Some p" and pipe: "stdin_pipe p" by blast
  show ?thesis
  proof (cases "stdin_broken p \<or> closed")
    case br: True
    with Some pipe have "process (notify self method params closed) = Some (p\<lparr>stdin_broken := True\<rparr>)"
      "request_id (notify self method params closed) = request_id self"
      by (auto simp: notify_def Let_def stdin_write_def child_closes_stdin_def eprint_def)
    with Some br show ?thesis by (intro failed) auto
  next
    case ok: False
    with Some pipe have "process (notify self method params closed) =
       Some (p\<lparr>stdin_written := stdin_written p @ [notification_message method params]\<rparr>)"
      "request_id (notify self method params closed) = request_id self"
      by (auto simp: notify_def Let_def stdin_write_def child_closes_stdin_def eprint_def)
    with Some ok show ?thesis by (intro sent) auto
  qed
qed

lemma ids_in_step_notify:
  assumes "ids_in_step self"
  shows "ids_in_step (notify self method params closed)"
proof (cases rule: notify_cases[of self "method" params closed])
  case idle
  with assms show ?thesis by simp
next
  case (failed p)
  with assms show ?thesis
    by (auto simp: ids_in_step_def wire_ids_def wire_def split: if_splits)
next
  case (sent p)
  with assms show ?thesis
    by (auto simp: ids_in_step_def wire_ids_def wire_def map_filter_snoc message_id_notification)
qed

lemma has_pipes_notify: "has_pipes (notify self method params closed) = has_pipes self"
  by (cases rule: notify_cases[of self "method" params closed]) (auto simp: has_pipes_def)

lemma request_id_notify: "request_id (notify self method params closed) = request_id self"
  by (cases rule: notify_cases[of self "method" params closed]) auto

lemma snd_list_tools: "snd (list_tools loads self env) = snd (request loads self ''tools/list'' (JDict []) env)"
  by (simp add: list_tools_def split: prod.splits)

lemma snd_call_tool:
  "snd (call_tool loads self name arguments env) =
     snd (request loads self ''tools/call'' (tool_call_params name arguments) env)"
  by (simp add: call_tool_def split: prod.splits)

lemma ids_in_step_run_op: "ids_in_step self \<Longrightarrow> ids_in_step (run_op loads self op)"
  by (cases op) (simp_all add: ids_in_step_request ids_in_step_notify snd_list_tools snd_call_tool)

lemma has_pipes_run_op: "has_pipes (run_op loads self op) = has_pipes self"
  by (cases op) (simp_all add: has_pipes_request has_pipes_notify snd_list_tools snd_call_tool)

lemma request_id_run_op:
  "request_id (run_op loads self op) =
     (if has_pipes self \<and> sends_request op then request_id self + 1 else request_id self)"
  by (cases op) (simp_all add: request_id_request request_id_notify snd_list_tools snd_call_tool)

lemma ids_in_step_foldl: "ids_in_step self \<Longrightarrow> ids_in_step (foldl (run_op loads) self ops)"
  by (induction ops arbitrary: self) (simp_all add: ids_in_step_run_op)

lemma has_pipes_foldl: "has_pipes (foldl (run_op loads) self ops) = has_pipes self"
  by (induction ops arbitrary: self) (simp_all add: has_pipes_run_op)

lemma request_id_foldl:
  "has_pipes self \<Longrightarrow>
   request_id (foldl (run_op loads) self ops) = request_id self + int (length (filter sends_request ops))"
  by (induction ops arbitrary: self) (simp_all add: request_id_run_op has_pipes_run_op)

lemma start_state:
  "snd (start loads self env) =
     (if \<not> spawn_ok env then eprint ''Failed to start MCP server'' self
      else if field (fst (request loads (self\<lparr>process := Some spawn\<rparr>) ''initialize'' initialize_params (initialize_env env))) ''result'' \<noteq> None
      then notify (snd (request loads (self\<lparr>process := Some spawn\<rparr>) ''initialize'' initialize_params (initialize_env env)))
             ''notifications/initialized'' (JDict []) (initialized_closed env)
      else snd (request loads (self\<lparr>process := Some spawn\<rparr>) ''initialize'' initialize_params (initialize_env env)))"
  by (simp add: start_def Let_def split: prod.splits)

lemma ids_in_step_spawned: "ids_in_step ((init cmd)\<lparr>process := Some spawn\<rparr>)"
  by (simp add: ids_in_step_def init_def spawn_def wire_ids_def wire_def List.map_filter_simps)

lemma ids_in_step_start: "ids_in_step (snd (start loads (init cmd) env))"
proof (cases "spawn_ok env")
  case False
  then show ?thesis
    by (simp add: start_state eprint_def ids_in_step_def init_def wire_ids_def wire_def
        List.map_filter_simps)
next
  case True
  then show ?thesis
    by (simp add: start_state ids_in_step_notify ids_in_step_request ids_in_step_spawned)
qed

lemma has_pipes_start: "has_pipes (snd (start loads (init cmd) env)) = spawn_ok env"
  by (simp add: start_state has_pipes_notify has_pipes_request)
     (simp add: has_pipes_def init_def spawn_def eprint_def)

lemma request_id_start: "spawn_ok env \<Longrightarrow> request_id (snd (start loads (init cmd) env)) = 1"
  by (simp add: start_state request_id_notify request_id_request)
     (simp add: has_pipes_def init_def spawn_def)

text \<open>
  C4. In every session (a start followed by any operations, whatever the child does:
  replies, garbage, silence until the timeout, end of stream, a closed pipe) the ids
  of the requests on the wire are exactly 1, 2, 3, and so on, in this order: the first
  is 1, each next one is one more, none is repeated. None exceeds the client's
  counter, and once the child is spawned the counter is the number of requests issued
  so far, the \<^verbatim>\<open>initialize\<close> request included: every request takes the next id whatever
  became of the one before.
\<close>

theorem request_ids_count_up_from_one:
  "wire_ids (run_session loads cmd env ops) =
     [1 .. int (length (wire_ids (run_session loads cmd env ops)))]
   \<and> int (length (wire_ids (run_session loads cmd env ops))) \<le> request_id (run_session loads cmd env ops)
   \<and> (spawn_ok env \<longrightarrow>
        request_id (run_session loads cmd env ops) = 1 + int (length (filter sends_request ops)))"
proof -
  have inv: "ids_in_step (run_session loads cmd env ops)"
    unfolding run_session_def by (rule ids_in_step_foldl) (rule ids_in_step_start)
  then have a: "wire_ids (run_session loads cmd env ops) =
     [1 .. int (length (wire_ids (run_session loads cmd env ops)))]"
    by (simp add: ids_in_step_def)
  have c: "request_id (run_session loads cmd env ops) = 1 + int (length (filter sends_request ops))"
    if "spawn_ok env"
    unfolding run_session_def using that
    by (simp add: request_id_foldl has_pipes_start request_id_start)
  have b: "int (length (wire_ids (run_session loads cmd env ops))) \<le> request_id (run_session loads cmd env ops)"
    using inv by (simp add: ids_in_step_def)
  from a b c show ?thesis by blast
qed

lemma example_session_wire:
  "length (wire_ids (run_session example_loads [''sphero-rvr-mcp''] example_start_env example_ops)) = 4"
  by (simp add: run_session_def example_start_env_def example_ops_def start_def init_def spawn_def
      request_def notify_def list_tools_def call_tool_def Let_def stdin_write_def
      child_closes_stdin_def eprint_def wire_ids_def wire_def request_message_def
      notification_message_def List.map_filter_simps read_response_reply7_0 read_response_late
      read_response_eof field_def reply7_def
      split: prod.splits)

theorem request_ids_count_up_from_one_witness:
  "spawn_ok example_start_env
   \<and> wire_ids (run_session example_loads [''sphero-rvr-mcp''] example_start_env example_ops) = [1, 2, 3, 4]
   \<and> request_id (run_session example_loads [''sphero-rvr-mcp''] example_start_env example_ops) = 4"
proof -
  have h: "spawn_ok example_start_env" by (simp add: example_start_env_def)
  note inst = request_ids_count_up_from_one[of example_loads "[''sphero-rvr-mcp'']" example_start_env example_ops]
  have "[1 .. 4] = [1, 2, 3, 4::int]" by (simp add: upto.simps)
  with inst h show ?thesis
    by (simp add: example_session_wire) (simp add: example_ops_def)
qed

section \<open>Requests answered by one example line\<close>

lemma request_one_line:
  assumes "sendable self env" and "stdout_lines env = [(d, l)]" and "int d < timeout"
    and "strip l = t" and "startswith_brace t" and "loads_dict loads t = Some msg"
  shows "fst (request loads self method params env) = Some msg"
proof -
  have "read_response loads 0 [(d, l)] = Inr (Some msg)"
    by (rule read_response_hit1) (use assms in simp_all)
  with assms(1,2) show ?thesis by (simp add: request_Some_iff)
qed

lemma sendable_one_line: "sendable live_client (one_line text)"
  by (simp add: one_line_def sendable_live_client)

lemma request_one_line_example:
  assumes "strip (text @ ''\<newline>'') = text" and "startswith_brace text"
    and "loads_dict example_loads text = Some msg"
  shows "fst (request example_loads live_client method params (one_line text)) = Some msg"
proof (rule request_one_line[OF sendable_one_line _ _ assms])
  show "stdout_lines (one_line text) = [(1, text @ ''\<newline>'')]"
    by (simp add: one_line_def)
  show "int 1 < timeout"
    by (simp add: timeout_def)
qed

lemma request_reply7:
  "fst (request example_loads live_client method params (one_line reply7_text)) = Some (reply7)"
proof (rule request_one_line_example)
  show "strip (reply7_text @ ''\<newline>'') = reply7_text"
    by (simp add: strip_def reply7_text_def isspace_def)
  show "startswith_brace reply7_text"
    by (simp add: startswith_brace_def reply7_text_def)
  show "loads_dict example_loads reply7_text = Some (reply7)"
    by (simp add: loads_dict_def example_loads_def example_table_def example_texts)
qed

lemma request_refused:
  "fst (request example_loads live_client method params (one_line refused_text)) = Some (refused)"
proof (rule request_one_line_example)
  show "strip (refused_text @ ''\<newline>'') = refused_text"
    by (simp add: strip_def refused_text_def isspace_def)
  show "startswith_brace refused_text"
    by (simp add: startswith_brace_def refused_text_def)
  show "loads_dict example_loads refused_text = Some (refused)"
    by (simp add: loads_dict_def example_loads_def example_table_def example_texts)
qed

lemma request_null_result:
  "fst (request example_loads live_client method params (one_line null_result_text)) = Some (null_result)"
proof (rule request_one_line_example)
  show "strip (null_result_text @ ''\<newline>'') = null_result_text"
    by (simp add: strip_def null_result_text_def isspace_def)
  show "startswith_brace null_result_text"
    by (simp add: startswith_brace_def null_result_text_def)
  show "loads_dict example_loads null_result_text = Some (null_result)"
    by (simp add: loads_dict_def example_loads_def example_table_def example_texts)
qed

lemma request_tools:
  "fst (request example_loads live_client method params (one_line tools_text)) = Some (tools_reply)"
proof (rule request_one_line_example)
  show "strip (tools_text @ ''\<newline>'') = tools_text"
    by (simp add: strip_def tools_text_def isspace_def)
  show "startswith_brace tools_text"
    by (simp add: startswith_brace_def tools_text_def)
  show "loads_dict example_loads tools_text = Some (tools_reply)"
    by (simp add: loads_dict_def example_loads_def example_table_def example_texts)
qed




lemma request_empty_content:
  "fst (request example_loads live_client method params (one_line empty_content_text)) = Some (empty_content)"
proof (rule request_one_line_example)
  show "strip (empty_content_text @ ''\<newline>'') = empty_content_text"
    by (simp add: strip_def empty_content_text_def isspace_def)
  show "startswith_brace empty_content_text"
    by (simp add: startswith_brace_def empty_content_text_def)
  show "loads_dict example_loads empty_content_text = Some (empty_content)"
    by (simp add: loads_dict_def example_loads_def example_table_def example_texts)
qed

lemma request_image_content:
  "fst (request example_loads live_client method params (one_line image_content_text)) = Some (image_content)"
proof (rule request_one_line_example)
  show "strip (image_content_text @ ''\<newline>'') = image_content_text"
    by (simp add: strip_def image_content_text_def isspace_def)
  show "startswith_brace image_content_text"
    by (simp add: startswith_brace_def image_content_text_def)
  show "loads_dict example_loads image_content_text = Some (image_content)"
    by (simp add: loads_dict_def example_loads_def example_table_def example_texts)
qed

section \<open>The handshake\<close>

lemma spawned_is_live_client: "(init [''sphero-rvr-mcp''])\<lparr>process := Some spawn\<rparr> = live_client"
  by (simp add: live_client_def)

lemma field_Some_iff: "field response k = Some v \<longleftrightarrow> (\<exists>d. response = Some d \<and> map_of d k = Some v)"
  by (auto simp: field_def split: option.splits)

lemma field_not_None_iff: "field response k \<noteq> None \<longleftrightarrow> (\<exists>d v. response = Some d \<and> map_of d k = Some v)"
  by (auto simp: field_def split: option.splits)

lemma fst_start:
  "fst (start loads self env) \<longleftrightarrow>
     spawn_ok env \<and>
     field (fst (request loads (self\<lparr>process := Some spawn\<rparr>) ''initialize'' initialize_params
                   (initialize_env env))) ''result'' \<noteq> None"
  by (simp add: start_def Let_def split: prod.splits)

lemma has_pipes_spawned: "has_pipes (self\<lparr>process := Some spawn\<rparr>)"
  by (simp add: has_pipes_def spawn_def)

lemma wire_start:
  assumes "spawn_ok env"
  shows "wire (snd (start loads self env)) =
           (if stdin_closed (initialize_env env) then []
            else initialize_request self #
                 (if fst (start loads self env) \<and> \<not> initialized_closed env
                  then [initialized_notification] else []))"
proof (cases rule: request_cases[of "self\<lparr>process := Some spawn\<rparr>" loads "''initialize''"
        initialize_params "initialize_env env"])
  case idle
  then show ?thesis by (simp add: has_pipes_spawned)
next
  case (failed p)
  let ?r = "request loads (self\<lparr>process := Some spawn\<rparr>) ''initialize'' initialize_params (initialize_env env)"
  from failed have cl: "stdin_closed (initialize_env env)" and p: "p = spawn"
    by (auto simp: spawn_def)
  then have "\<not> sendable (self\<lparr>process := Some spawn\<rparr>) (initialize_env env)"
    by (simp add: sendable_def)
  then have "fst ?r = None"
    using request_Some_iff[of loads "self\<lparr>process := Some spawn\<rparr>" "''initialize''" initialize_params "initialize_env env"]
    by (cases "fst ?r") auto
  then have "snd (start loads self env) = snd ?r"
    using assms by (simp add: start_state field_def)
  with failed(4) p cl show ?thesis by (simp add: wire_def spawn_def)
next
  case (sent p)
  let ?r = "request loads (self\<lparr>process := Some spawn\<rparr>) ''initialize'' initialize_params (initialize_env env)"
  from sent have p: "p = spawn" by simp
  have w: "wire (snd ?r) = [initialize_request self]"
    using sent(5) p by (simp add: wire_def spawn_def initialize_request_def)
  show ?thesis
  proof (cases "fst (start loads self env)")
    case False
    then have "snd (start loads self env) = snd ?r"
      using assms by (simp add: start_state fst_start)
    with w sent(4) False show ?thesis by simp
  next
    case True
    then have s: "snd (start loads self env) =
        notify (snd ?r) ''notifications/initialized'' (JDict []) (initialized_closed env)"
      using assms by (simp add: start_state fst_start)
    show ?thesis
    proof (cases rule: notify_cases[of "snd ?r" "''notifications/initialized''" "JDict []" "initialized_closed env"])
      case idle
      with sent(5) p have False by (simp add: spawn_def)
      then show ?thesis ..
    next
      case (failed q)
      with sent(5) p have "initialized_closed env" by (auto simp: spawn_def)
      moreover from failed sent(5) have "wire (notify (snd ?r) ''notifications/initialized'' (JDict [])
          (initialized_closed env)) = wire (snd ?r)"
        by (simp add: wire_def)
      ultimately show ?thesis using s w sent(4) True by simp
    next
      case n: (sent q)
      from n(1,4) have "wire (notify (snd ?r) ''notifications/initialized'' (JDict [])
          (initialized_closed env)) = wire (snd ?r) @ [initialized_notification]"
        by (simp add: wire_def initialized_notification_def)
      with n(3) s w sent(4) True show ?thesis by simp
    qed
  qed
qed

text \<open>
  C7. \<open>start\<close> returns \<^verbatim>\<open>True\<close> exactly when the child could be spawned and the
  \<^verbatim>\<open>initialize\<close> request returned a response that has a \<^verbatim>\<open>result\<close> field. When the spawn
  fails nothing is written. Otherwise the new child is sent the \<^verbatim>\<open>initialize\<close> request
  first and, after it, the \<^verbatim>\<open>notifications/initialized\<close> notification exactly when
  \<open>start\<close> succeeds; nothing else is written, so the notification never precedes
  the response and is never sent on failure. (The write of the notification is best
  effort: if the child has closed its input in the meantime, \<^verbatim>\<open>_notify\<close> prints the error
  and \<open>start\<close> still returns \<^verbatim>\<open>True\<close>.)
\<close>

theorem start_succeeds_iff_result:
  "(fst (start loads self env) \<longleftrightarrow>
      spawn_ok env \<and>
      (\<exists>d v. fst (request loads (self\<lparr>process := Some spawn\<rparr>) ''initialize''
                      initialize_params (initialize_env env)) = Some d
             \<and> map_of d ''result'' = Some v))
   \<and> (\<not> spawn_ok env \<longrightarrow> process (snd (start loads self env)) = process self)
   \<and> (spawn_ok env \<longrightarrow>
        wire (snd (start loads self env)) =
          (if stdin_closed (initialize_env env) then []
           else initialize_request self #
                (if fst (start loads self env) \<and> \<not> initialized_closed env
                 then [initialized_notification] else [])))"
proof -
  have a: "fst (start loads self env) \<longleftrightarrow>
      spawn_ok env \<and>
      (\<exists>d v. fst (request loads (self\<lparr>process := Some spawn\<rparr>) ''initialize''
                      initialize_params (initialize_env env)) = Some d
             \<and> map_of d ''result'' = Some v)"
    unfolding fst_start by (auto simp: field_Some_iff)
  have b: "process (snd (start loads self env)) = process self" if "\<not> spawn_ok env"
    using that by (simp add: start_state eprint_def)
  from a b wire_start[of env loads self] show ?thesis by blast
qed

theorem start_succeeds_iff_result_witness:
  "spawn_ok example_start_env
   \<and> fst (start example_loads (init [''sphero-rvr-mcp'']) example_start_env)
   \<and> wire (snd (start example_loads (init [''sphero-rvr-mcp'']) example_start_env)) =
       [initialize_request (init [''sphero-rvr-mcp'']), initialized_notification]
   \<and> \<not> fst (start example_loads (init [''sphero-rvr-mcp'']) refused_start_env)
   \<and> wire (snd (start example_loads (init [''sphero-rvr-mcp'']) refused_start_env)) =
       [initialize_request (init [''sphero-rvr-mcp''])]"
proof -
  let ?c = "init [''sphero-rvr-mcp'']"
  have ok: "fst (request example_loads (?c\<lparr>process := Some spawn\<rparr>) ''initialize'' initialize_params
              (initialize_env example_start_env)) = Some reply7"
    unfolding spawned_is_live_client using request_reply7
    by (simp add: example_start_env_def one_line_def reply7_stream_def)
  have no: "fst (request example_loads (?c\<lparr>process := Some spawn\<rparr>) ''initialize'' initialize_params
              (initialize_env refused_start_env)) = Some refused"
    unfolding spawned_is_live_client using request_refused
    by (simp add: refused_start_env_def)
  have r1: "map_of reply7 ''result'' = Some (JDict [])" by (simp add: reply7_def)
  have r2: "map_of refused ''result'' = None" by (simp add: refused_def)
  have e1: "spawn_ok example_start_env" "\<not> stdin_closed (initialize_env example_start_env)"
    "\<not> initialized_closed example_start_env"
    by (simp_all add: example_start_env_def)
  have e2: "spawn_ok refused_start_env" "\<not> stdin_closed (initialize_env refused_start_env)"
    by (simp_all add: refused_start_env_def one_line_def)
  from start_succeeds_iff_result[of example_loads ?c example_start_env] ok r1 e1
  have "fst (start example_loads ?c example_start_env)
      \<and> wire (snd (start example_loads ?c example_start_env)) =
          [initialize_request ?c, initialized_notification]"
    by simp
  moreover
  from start_succeeds_iff_result[of example_loads ?c refused_start_env] no r2 e2
  have "\<not> fst (start example_loads ?c refused_start_env)
      \<and> wire (snd (start example_loads ?c refused_start_env)) = [initialize_request ?c]"
    by simp
  ultimately show ?thesis using e1 by simp
qed

section \<open>Stopping the child\<close>

lemma stop_graceful:
  assumes "process self = Some p" and "d \<le> 5"
  shows "stop self (Some d) =
           (self\<lparr>process := None\<rparr>,
            Some (p\<lparr>signals := signals p @ [SIGTERM], status := Reaped, reaps := reaps p + 1\<rparr>))"
  using assms by (simp add: stop_def terminate_def wait_def Let_def)

lemma stop_forced:
  assumes "process self = Some p" and "exit_after = None \<or> (\<exists>d. exit_after = Some d \<and> 5 < d)"
  shows "stop self exit_after =
           (self\<lparr>process := None\<rparr>,
            Some (p\<lparr>signals := signals p @ [SIGTERM, SIGKILL], status := Zombie\<rparr>))"
  using assms by (auto simp: stop_def terminate_def wait_def kill_def Let_def)

text \<open>
  C2. \<open>stop\<close> asks the child to terminate and waits at most 5 time units. A child
  that exits within 2 units is collected by that wait: one reap. A child that needs
  6 units is killed, and then \<open>stop\<close> drops the handle without waiting again: the
  killed child has been sent both signals, has never been collected and is left a
  zombie. So the forced branch performs no reap, where the claim requires exactly one.
\<close>

theorem stop_forced_kill_is_not_reaped:
  "process (fst (stop live_client (Some 6))) = None
   \<and> map_option signals (snd (stop live_client (Some 6))) = Some [SIGTERM, SIGKILL]
   \<and> map_option status (snd (stop live_client (Some 6))) = Some Zombie
   \<and> map_option reaps (snd (stop live_client (Some 6))) = Some 0
   \<and> map_option status (snd (stop live_client (Some 2))) = Some Reaped
   \<and> map_option reaps (snd (stop live_client (Some 2))) = Some 1"
proof -
  have p: "process live_client = Some spawn" by (simp add: live_client_def)
  have "stop live_client (Some 6) =
          (live_client\<lparr>process := None\<rparr>,
           Some (spawn\<lparr>signals := signals spawn @ [SIGTERM, SIGKILL], status := Zombie\<rparr>))"
    by (rule stop_forced[OF p]) simp
  moreover have "stop live_client (Some 2) =
          (live_client\<lparr>process := None\<rparr>,
           Some (spawn\<lparr>signals := signals spawn @ [SIGTERM], status := Reaped, reaps := reaps spawn + 1\<rparr>))"
    by (rule stop_graceful[OF p]) simp
  ultimately show ?thesis by (simp add: spawn_def)
qed

section \<open>Converting the tool catalogue\<close>

lemma convert_loop_map:
  assumes "\<forall>t\<in>set mcp_tools. \<exists>x. convert_tool t = Inr x"
  shows "convert_loop acc mcp_tools = Inr (acc @ map (projr \<circ> convert_tool) mcp_tools)"
  using assms
proof (induction mcp_tools arbitrary: acc)
  case Nil
  then show ?case by simp
next
  case (Cons t ts)
  then obtain x where x: "convert_tool t = Inr x" by auto
  with Cons show ?case by simp
qed

lemma convert_tool_named:
  assumes "map_of d ''name'' = Some n"
  shows "convert_tool (JDict d) =
           Inr (JDict [(''type'', JStr ''function''),
                       (''function'',
                        JDict [(''name'', n),
                               (''description'',
                                case map_of d ''description'' of None \<Rightarrow> JStr '''' | Some x \<Rightarrow> x),
                               (''parameters'',
                                case map_of d ''inputSchema'' of
                                  None \<Rightarrow> JDict [(''type'', JStr ''object''), (''properties'', JDict [])]
                                | Some x \<Rightarrow> x)])])"
  using assms by (simp add: dict_get_def default_schema_def split: option.splits)

text \<open>
  C8. For tool descriptors, that is dictionaries with a \<^verbatim>\<open>name\<close>,
  \<open>convert_tools_to_ollama\<close> returns a list of the same length whose element at
  each position is built from the descriptor at that position: the key \<^verbatim>\<open>type\<close> (the
  kind) with the value \<^verbatim>\<open>function\<close>, and \<^verbatim>\<open>function\<close> with the descriptor's name, its
  description or the empty string, and its \<^verbatim>\<open>inputSchema\<close> or the empty object schema.
\<close>

theorem convert_tools_to_ollama_shape:
  assumes "\<forall>t\<in>set mcp_tools. \<exists>d n. t = JDict d \<and> map_of d ''name'' = Some n"
  shows "\<exists>out. convert_tools_to_ollama mcp_tools = Inr out
           \<and> length out = length mcp_tools
           \<and> (\<forall>i d n. i < length mcp_tools \<and> mcp_tools ! i = JDict d \<and> map_of d ''name'' = Some n \<longrightarrow>
                out ! i =
                  JDict [(''type'', JStr ''function''),
                         (''function'',
                          JDict [(''name'', n),
                                 (''description'',
                                  case map_of d ''description'' of None \<Rightarrow> JStr '''' | Some x \<Rightarrow> x),
                                 (''parameters'',
                                  case map_of d ''inputSchema'' of
                                    None \<Rightarrow> JDict [(''type'', JStr ''object''), (''properties'', JDict [])]
                                  | Some x \<Rightarrow> x)])])"
proof -
  have ok: "\<forall>t\<in>set mcp_tools. \<exists>x. convert_tool t = Inr x"
  proof
    fix t assume "t \<in> set mcp_tools"
    with assms obtain d n where "t = JDict d" "map_of d ''name'' = Some n" by blast
    then show "\<exists>x. convert_tool t = Inr x" by simp
  qed
  have eq: "convert_tools_to_ollama mcp_tools = Inr (map (projr \<circ> convert_tool) mcp_tools)"
    unfolding convert_tools_to_ollama_def using convert_loop_map[OF ok, of "[]"] by simp
  have "map (projr \<circ> convert_tool) mcp_tools ! i =
                  JDict [(''type'', JStr ''function''),
                         (''function'',
                          JDict [(''name'', n),
                                 (''description'',
                                  case map_of d ''description'' of None \<Rightarrow> JStr '''' | Some x \<Rightarrow> x),
                                 (''parameters'',
                                  case map_of d ''inputSchema'' of
                                    None \<Rightarrow> JDict [(''type'', JStr ''object''), (''properties'', JDict [])]
                                  | Some x \<Rightarrow> x)])]"
    if "i < length mcp_tools" "mcp_tools ! i = JDict d" "map_of d ''name'' = Some n" for i d n
    using that convert_tool_named[OF that(3)] by simp
  with eq show ?thesis by (simp add: dict_get_def default_schema_def split: option.splits)
qed

theorem convert_tools_to_ollama_shape_witness:
  "list_all (\<lambda>t. case t of JDict d \<Rightarrow> map_of d ''name'' \<noteq> None | _ \<Rightarrow> False) [connect_tool, drive_tool]
   \<and> convert_tools_to_ollama [connect_tool, drive_tool] =
       Inr [JDict [(''type'', JStr ''function''),
                   (''function'',
                    JDict [(''name'', JStr ''connect''),
                           (''description'', JStr ''d''),
                           (''parameters'',
                            JDict [(''type'', JStr ''object''), (''properties'', JDict [])])])],
            JDict [(''type'', JStr ''function''),
                   (''function'',
                    JDict [(''name'', JStr ''drive''),
                           (''description'', JStr ''''),
                           (''parameters'',
                            JDict [(''type'', JStr ''object''),
                                   (''properties'',
                                    JDict [(''speed'', JDict [(''type'', JStr ''integer'')])])])])]]"
proof -
  have h: "\<forall>t\<in>set [connect_tool, drive_tool]. \<exists>d n. t = JDict d \<and> map_of d ''name'' = Some n"
    by (simp add: connect_tool_def drive_tool_def)
  from convert_tools_to_ollama_shape[OF h] obtain out where
    out: "convert_tools_to_ollama [connect_tool, drive_tool] = Inr out"
    and len: "length out = 2"
    and shape: "\<And>i d n. i < 2 \<Longrightarrow> [connect_tool, drive_tool] ! i = JDict d \<Longrightarrow> map_of d ''name'' = Some n \<Longrightarrow>
                out ! i =
                  JDict [(''type'', JStr ''function''),
                         (''function'',
                          JDict [(''name'', n),
                                 (''description'',
                                  case map_of d ''description'' of None \<Rightarrow> JStr '''' | Some x \<Rightarrow> x),
                                 (''parameters'',
                                  case map_of d ''inputSchema'' of
                                    None \<Rightarrow> JDict [(''type'', JStr ''object''), (''properties'', JDict [])]
                                  | Some x \<Rightarrow> x)])]"
    by auto
  from len obtain a b where ab: "out = [a, b]"
    by (metis (no_types, opaque_lifting) One_nat_def Suc_1 length_0_conv length_Suc_conv)
  from shape[of 0] have "a = JDict [(''type'', JStr ''function''),
                   (''function'',
                    JDict [(''name'', JStr ''connect''),
                           (''description'', JStr ''d''),
                           (''parameters'',
                            JDict [(''type'', JStr ''object''), (''properties'', JDict [])])])]"
    by (simp add: ab connect_tool_def)
  moreover from shape[of 1] have "b = JDict [(''type'', JStr ''function''),
                   (''function'',
                    JDict [(''name'', JStr ''drive''),
                           (''description'', JStr ''''),
                           (''parameters'',
                            JDict [(''type'', JStr ''object''),
                                   (''properties'',
                                    JDict [(''speed'', JDict [(''type'', JStr ''integer'')])])])])]"
    by (simp add: ab drive_tool_def)
  ultimately show ?thesis using out ab
    by (simp add: connect_tool_def drive_tool_def)
qed

section \<open>Listing the tools\<close>

lemma fst_list_tools:
  "fst (list_tools loads self env) =
     (case field (fst (request loads self ''tools/list'' (JDict []) env)) ''result'' of
        Some result \<Rightarrow> get result ''tools'' (JList [])
      | None \<Rightarrow> Inr (JList []))"
  by (simp add: list_tools_def split: prod.splits)

lemma get_not_dict: "\<forall>d. v \<noteq> JDict d \<Longrightarrow> get v k dflt = Inl AttributeError"
  by (cases v) simp_all

lemma request_eof: "fst (request example_loads live_client method params eof_env) = None"
  by (simp add: request_sendable eof_env_def sendable_live_client read_response_eof)

text \<open>
  C9, as stated, fails. The child answers \<^verbatim>\<open>tools/list\<close> with a response whose \<^verbatim>\<open>result\<close>
  is \<^verbatim>\<open>null\<close>: the response carries a result and the result has no \<^verbatim>\<open>tools\<close> entry, so
  the claim promises the empty sequence. Line 62 calls \<^verbatim>\<open>.get\<close> on \<^verbatim>\<open>None\<close>, which raises
  \<^verbatim>\<open>AttributeError\<close>, and \<open>list_tools\<close> has no handler.
\<close>

theorem list_tools_raises_on_null_result:
  "fst (list_tools example_loads live_client (one_line null_result_text)) = Inl AttributeError"
  by (simp add: fst_list_tools request_null_result field_def null_result_def)

text \<open>
  C9, amended. \<open>list_tools\<close> returns the empty list when there is no response and
  when the response has no \<^verbatim>\<open>result\<close> field; when the result is a dictionary it returns
  the value of its \<^verbatim>\<open>tools\<close> entry as it is, so in the order the server gave, or the
  empty list when the entry is missing; when the result is not a dictionary it raises
  \<^verbatim>\<open>AttributeError\<close>.
\<close>

theorem list_tools_returns_tools:
  "(fst (request loads self ''tools/list'' (JDict []) env) = None \<longrightarrow>
      fst (list_tools loads self env) = Inr (JList []))
   \<and> (\<forall>d. fst (request loads self ''tools/list'' (JDict []) env) = Some d
           \<and> map_of d ''result'' = None \<longrightarrow>
         fst (list_tools loads self env) = Inr (JList []))
   \<and> (\<forall>d result. fst (request loads self ''tools/list'' (JDict []) env) = Some d
           \<and> map_of d ''result'' = Some (JDict result) \<longrightarrow>
         fst (list_tools loads self env) =
           Inr (case map_of result ''tools'' of Some tools \<Rightarrow> tools | None \<Rightarrow> JList []))
   \<and> (\<forall>d v. fst (request loads self ''tools/list'' (JDict []) env) = Some d
           \<and> map_of d ''result'' = Some v \<and> (\<forall>result. v \<noteq> JDict result) \<longrightarrow>
         fst (list_tools loads self env) = Inl AttributeError)"
proof -
  let ?r = "fst (request loads self ''tools/list'' (JDict []) env)"
  have a: "fst (list_tools loads self env) = Inr (JList [])" if "?r = None"
    using that by (simp add: fst_list_tools field_def)
  have b: "fst (list_tools loads self env) = Inr (JList [])"
    if "?r = Some d" "map_of d ''result'' = None" for d
    using that by (simp add: fst_list_tools field_def)
  have c: "fst (list_tools loads self env) =
           Inr (case map_of result ''tools'' of Some tools \<Rightarrow> tools | None \<Rightarrow> JList [])"
    if "?r = Some d" "map_of d ''result'' = Some (JDict result)" for d result
  proof -
    from that have "field ?r ''result'' = Some (JDict result)" by (simp add: field_Some_iff)
    then show ?thesis by (simp add: fst_list_tools dict_get_def split: option.splits)
  qed
  have d: "fst (list_tools loads self env) = Inl AttributeError"
    if "?r = Some d" "map_of d ''result'' = Some v" "\<forall>result. v \<noteq> JDict result" for d v
  proof -
    from that have "field ?r ''result'' = Some v" by (simp add: field_Some_iff)
    with that(3) show ?thesis by (simp add: fst_list_tools get_not_dict)
  qed
  from a b c d show ?thesis by blast
qed

theorem list_tools_returns_tools_witness:
  "fst (list_tools example_loads live_client (one_line tools_text)) = Inr (JList [connect_tool])
   \<and> fst (list_tools example_loads live_client (one_line refused_text)) = Inr (JList [])
   \<and> fst (list_tools example_loads live_client eof_env) = Inr (JList [])"
proof -
  note inst = list_tools_returns_tools[of example_loads live_client]
  have "fst (list_tools example_loads live_client (one_line tools_text)) = Inr (JList [connect_tool])"
    using inst[of "one_line tools_text"] request_tools[of "''tools/list''" "JDict []"]
    by (simp add: tools_reply_def)
  moreover
  have "fst (list_tools example_loads live_client (one_line refused_text)) = Inr (JList [])"
    using inst[of "one_line refused_text"] request_refused[of "''tools/list''" "JDict []"]
    by (simp add: refused_def)
  moreover
  have "fst (list_tools example_loads live_client eof_env) = Inr (JList [])"
    using inst[of eof_env] request_eof[of "''tools/list''" "JDict []"]
    by simp
  ultimately show ?thesis by blast
qed

section \<open>Calling a tool\<close>

lemma fst_call_tool:
  "fst (call_tool loads self name arguments env) =
     tool_reply loads (fst (request loads self ''tools/call'' (tool_call_params name arguments) env))"
  by (simp add: call_tool_def split: prod.splits)

lemma tool_reply_text:
  assumes "field response ''result'' = Some (JDict result)"
    and "map_of result ''content'' = Some (JList (JDict el # others))"
    and "dict_get el ''text'' (JStr ''{}'') = JStr s"
  shows "tool_reply loads response =
           Inr (case loads s of Some v \<Rightarrow> v | None \<Rightarrow> JDict [(''result'', JStr s)])"
  using assms by (simp add: tool_reply_def dict_get_def decode_text_def split: option.splits)

lemma tool_reply_no_content:
  assumes "no_content response"
  shows "tool_reply loads response = error_reply response"
proof (cases "field response ''result''")
  case None
  then show ?thesis by (simp add: tool_reply_def)
next
  case (Some v)
  with assms obtain result where v: "v = JDict result"
    and c: "\<not> truthy (dict_get result ''content'' (JList []))"
    by (cases v) (simp_all add: no_content_def)
  with Some show ?thesis by (simp add: tool_reply_def)
qed


lemma error_reply_none:
  assumes "field response ''error'' = None"
  shows "error_reply response = Inr (JDict [(''error'', JStr ''No response from MCP server'')])"
  using assms by (simp add: error_reply_def)




text \<open>
  C10. Let the response to \<^verbatim>\<open>tools/call\<close> have a result that is a dictionary. If its
  content list is missing or empty and the response has no error field (the server
  replied successfully), \<open>call_tool\<close> returns \<^verbatim>\<open>"No response from MCP server"\<close> under
  \<^verbatim>\<open>error\<close>. If the first content element is a dictionary without a \<^verbatim>\<open>text\<close> field,
  \<open>call_tool\<close> decodes the default text \<^verbatim>\<open>"{}"\<close> and returns the empty dictionary.
\<close>

theorem call_tool_without_content_or_text:
  assumes "fst (request loads self ''tools/call'' (tool_call_params name arguments) env) = Some d"
    and "map_of d ''result'' = Some (JDict result)"
  shows "((map_of result ''content'' = None \<or> map_of result ''content'' = Some (JList []))
          \<and> map_of d ''error'' = None \<longrightarrow>
            fst (call_tool loads self name arguments env) =
              Inr (JDict [(''error'', JStr ''No response from MCP server'')]))
       \<and> (\<forall>el others. map_of result ''content'' = Some (JList (JDict el # others))
            \<and> map_of el ''text'' = None \<and> loads ''{}'' = Some (JDict []) \<longrightarrow>
            fst (call_tool loads self name arguments env) = Inr (JDict []))"
proof -
  have f: "field (Some d) ''result'' = Some (JDict result)"
    using assms(2) by (simp add: field_Some_iff)
  have a: "fst (call_tool loads self name arguments env) =
              Inr (JDict [(''error'', JStr ''No response from MCP server'')])"
    if "map_of result ''content'' = None \<or> map_of result ''content'' = Some (JList [])"
      and "map_of d ''error'' = None"
  proof -
    from that(1) have "no_content (Some d)"
      by (auto simp: no_content_def f dict_get_def)
    moreover from that(2) have "field (Some d) ''error'' = None"
      by (simp add: field_def)
    ultimately show ?thesis
      by (simp add: fst_call_tool assms(1) tool_reply_no_content error_reply_none)
  qed
  have b: "fst (call_tool loads self name arguments env) = Inr (JDict [])"
    if "map_of result ''content'' = Some (JList (JDict el # others))"
      and "map_of el ''text'' = None" and "loads ''{}'' = Some (JDict [])" for el others
  proof -
    from that(2) have "dict_get el ''text'' (JStr ''{}'') = JStr ''{}''"
      by (simp add: dict_get_def)
    from tool_reply_text[OF f that(1) this, of loads] that(3) show ?thesis
      by (simp add: fst_call_tool assms(1))
  qed
  from a b show ?thesis by blast
qed

theorem call_tool_without_content_or_text_witness:
  "fst (call_tool example_loads live_client ''get_battery_status'' (JDict [])
          (one_line empty_content_text)) =
       Inr (JDict [(''error'', JStr ''No response from MCP server'')])
   \<and> fst (call_tool example_loads live_client ''get_battery_status'' (JDict [])
          (one_line image_content_text)) = Inr (JDict [])"
proof -
  let ?p = "tool_call_params ''get_battery_status'' (JDict [])"
  have l: "example_loads ''{}'' = Some (JDict [])"
    by (simp add: example_loads_def example_table_def example_texts)
  have r1: "map_of empty_content ''result'' = Some (JDict [(''content'', JList [])])"
    by (simp add: empty_content_def)
  have r2: "map_of image_content ''result'' =
      Some (JDict [(''content'', JList [JDict [(''type'', JStr ''image'')]])])"
    by (simp add: image_content_def)
  have a: "fst (call_tool example_loads live_client ''get_battery_status'' (JDict [])
          (one_line empty_content_text)) =
       Inr (JDict [(''error'', JStr ''No response from MCP server'')])"
    using call_tool_without_content_or_text[OF request_empty_content[of "''tools/call''" ?p] r1]
    by (simp add: empty_content_def)
  have b: "fst (call_tool example_loads live_client ''get_battery_status'' (JDict [])
          (one_line image_content_text)) = Inr (JDict [])"
    using call_tool_without_content_or_text[OF request_image_content[of "''tools/call''" ?p] r2] l
    by simp
  from a b show ?thesis by blast
qed

end
